theory Spec2Isabelle
  imports Complex_Main
begin

section \<open>Numbers\<close>

text \<open>
  The program computes with Python and numpy floats. Rounding, overflow and infinities
  are outside this development: a finite float is read as the real number it stands for.
  What is kept of the float format is the value NaN, because the ATR series of
  \<^verbatim>\<open>calculate_atr\<close> (a rolling mean over \<^verbatim>\<open>ATR_PERIOD\<close> bars) is NaN on its first
  bars, and a NaN is not \<^verbatim>\<open>None\<close>: arithmetic on NaN gives NaN and every ordering
  comparison with NaN is false.
\<close>

datatype fl = NaN | Fin real

fun fl_add :: "fl \<Rightarrow> fl \<Rightarrow> fl" where
  "fl_add (Fin a) (Fin b) = Fin (a + b)"
| "fl_add _ _ = NaN"

fun fl_sub :: "fl \<Rightarrow> fl \<Rightarrow> fl" where
  "fl_sub (Fin a) (Fin b) = Fin (a - b)"
| "fl_sub _ _ = NaN"

fun fl_mul :: "fl \<Rightarrow> fl \<Rightarrow> fl" where
  "fl_mul (Fin a) (Fin b) = Fin (a * b)"
| "fl_mul _ _ = NaN"

fun fl_abs :: "fl \<Rightarrow> fl" where
  "fl_abs (Fin a) = Fin \<bar>a\<bar>"
| "fl_abs NaN = NaN"

fun fl_lt :: "fl \<Rightarrow> fl \<Rightarrow> bool" where
  "fl_lt (Fin a) (Fin b) = (a < b)"
| "fl_lt _ _ = False"

fun fl_le :: "fl \<Rightarrow> fl \<Rightarrow> bool" where
  "fl_le (Fin a) (Fin b) = (a \<le> b)"
| "fl_le _ _ = False"

section \<open>Configuration constants (config.py)\<close>

definition ATR_MULTIPLIER :: real where
  "ATR_MULTIPLIER = 2"

definition ATR_STOP_LOSS_MULTIPLIER :: real where
  "ATR_STOP_LOSS_MULTIPLIER = 2"

definition ATR_TAKE_PROFIT_MULTIPLIER :: real where
  "ATR_TAKE_PROFIT_MULTIPLIER = 4"

section \<open>Data of the backtester (backtest/backtester.py)\<close>

datatype error = KeyError string | IndexError | ZeroDivisionError

datatype direction = Long | Short

text \<open>
  The attributes of a \<^verbatim>\<open>Backtester\<close> that the simulation reads
  (\<^verbatim>\<open>self.lot_size\<close>, \<^verbatim>\<open>self.commission\<close>, ...).
\<close>

record backtester =
  self_lot_size :: real
  self_commission :: real
  self_spread :: real
  self_risk_per_trade :: real
  self_pip_value :: real
  self_max_drawdown :: real

text \<open>
  One iteration of \<^verbatim>\<open>for i, row in signals.iterrows()\<close>: the index label \<^verbatim>\<open>i\<close>,
  the columns of the row that the loop reads, and the value the loop finds for
  \<^verbatim>\<open>atr\<close> at that index (\<^verbatim>\<open>None\<close>, NaN or a number). The loop reads two different
  columns, \<^verbatim>\<open>row['signal']\<close> and \<^verbatim>\<open>row['Signal']\<close>; a column the frame does not
  have is \<open>None\<close> here and reading it raises \<^verbatim>\<open>KeyError\<close>. The frames built by
  \<^verbatim>\<open>generate_signals\<close> in strategy/ have the column \<^verbatim>\<open>Signal\<close> and no column
  \<^verbatim>\<open>signal\<close>. The closing price is a finite number.
\<close>

record bar =
  b_time :: nat
  b_close :: real
  b_signal :: "int option"
  b_Signal :: "int option"
  b_atr :: "fl option"

record position =
  entry_time :: nat
  entry_price :: real
  direction :: direction
  lot_size :: real
  symbol :: string
  stop_loss :: fl
  take_profit :: fl

text \<open>
  An element of \<^verbatim>\<open>self.trades\<close>. The loop appends two shapes of dictionary to the
  same list: an entry log when a position opens (keys \<^verbatim>\<open>entry_reason\<close> and
  \<^verbatim>\<open>status\<close>, no \<^verbatim>\<open>pnl\<close>, no \<^verbatim>\<open>balance\<close>) and a closed trade when it closes.
  A key that only one of the shapes has is an option: \<open>None\<close> is "the dictionary has no
  such key". \<open>t_trailing_stop\<close> is a key of both shapes whose value may be \<^verbatim>\<open>None\<close>.
\<close>

record trade =
  t_entry_time :: nat
  t_symbol :: string
  t_direction :: direction
  t_entry_price :: real
  t_lot_size :: real
  t_stop_loss :: fl
  t_take_profit :: fl
  t_trailing_stop :: "fl option"
  t_exit_time :: "nat option"
  t_exit_price :: "real option"
  t_pnl :: "real option"
  t_balance :: "real option"
  t_exit_reason :: "string option"
  t_entry_reason :: "string option"
  t_status :: "string option"

record equity_point =
  ep_time :: nat
  ep_balance :: real
  ep_equity :: real
  ep_position :: bool

text \<open>The local variables of \<^verbatim>\<open>_simulate_trading\<close> and the two lists it appends to.\<close>

record sim_state =
  balance :: real
  equity :: real
  position :: "position option"
  trailing_stop :: "fl option"
  max_equity :: real
  drawdown_triggered :: bool
  trades :: "trade list"
  equity_curve :: "equity_point list"

section \<open>Realized and unrealized PnL\<close>

definition calculate_pnl :: "backtester \<Rightarrow> position \<Rightarrow> real \<Rightarrow> real" where
  "calculate_pnl self p current_price =
     (case direction p of
        Long \<Rightarrow> (current_price - entry_price p) * lot_size p * 100000
      | Short \<Rightarrow> (entry_price p - current_price) * lot_size p * 100000)
     - self_commission self * lot_size p * 100000"

section \<open>The simulation loop, one bar at a time\<close>

text \<open>
  The body of the loop of \<^verbatim>\<open>_simulate_trading\<close>, in the order of the source.
  An exception of the source (\<^verbatim>\<open>KeyError\<close> on a missing column) ends the run and
  is the value \<open>Inl\<close>.
\<close>

text \<open>Lines 72-78: running peak of the equity and the sticky drawdown flag.\<close>

definition current_drawdown :: "sim_state \<Rightarrow> real" where
  "current_drawdown s =
     (let me = (if equity s > max_equity s then equity s else max_equity s)
      in if me > 0 then (me - equity s) / me else 0)"

definition update_drawdown :: "backtester \<Rightarrow> sim_state \<Rightarrow> sim_state" where
  "update_drawdown self s =
     s\<lparr>max_equity := (if equity s > max_equity s then equity s else max_equity s),
       drawdown_triggered :=
         (if current_drawdown s > self_max_drawdown self \<and> \<not> drawdown_triggered s
          then True else drawdown_triggered s)\<rparr>"

text \<open>Lines 81-89: the candidate trailing stop and its acceptance.\<close>

definition new_trailing :: "direction \<Rightarrow> real \<Rightarrow> fl option \<Rightarrow> fl option" where
  "new_trailing d current_price atr =
     (case atr of
        None \<Rightarrow> None
      | Some a \<Rightarrow>
          (case d of
             Long \<Rightarrow> Some (fl_sub (Fin current_price) (fl_mul (Fin ATR_MULTIPLIER) a))
           | Short \<Rightarrow> Some (fl_add (Fin current_price) (fl_mul (Fin ATR_MULTIPLIER) a))))"

definition update_trailing_stop ::
  "direction \<Rightarrow> real \<Rightarrow> fl option \<Rightarrow> fl option \<Rightarrow> fl option" where
  "update_trailing_stop d current_price atr ts =
     (case new_trailing d current_price atr of
        None \<Rightarrow> ts
      | Some nt \<Rightarrow>
          (case ts of
             None \<Rightarrow> Some nt
           | Some t \<Rightarrow>
               (case d of
                  Long \<Rightarrow> if fl_lt t nt then Some nt else Some t
                | Short \<Rightarrow> if fl_lt nt t then Some nt else Some t)))"

text \<open>
  Lines 90-109: the chain of close conditions. The last link reads the column
  \<^verbatim>\<open>signal\<close> (lower case), and only when the three price conditions are false.
\<close>

definition trailing_hit :: "direction \<Rightarrow> real \<Rightarrow> fl option \<Rightarrow> bool" where
  "trailing_hit d current_price ts =
     (case ts of
        None \<Rightarrow> False
      | Some t \<Rightarrow>
          (case d of
             Long \<Rightarrow> fl_le (Fin current_price) t
           | Short \<Rightarrow> fl_le t (Fin current_price)))"

definition stop_loss_hit :: "position \<Rightarrow> real \<Rightarrow> bool" where
  "stop_loss_hit p current_price =
     (case direction p of
        Long \<Rightarrow> fl_le (Fin current_price) (stop_loss p)
      | Short \<Rightarrow> fl_le (stop_loss p) (Fin current_price))"

definition take_profit_hit :: "position \<Rightarrow> real \<Rightarrow> bool" where
  "take_profit_hit p current_price =
     (case direction p of
        Long \<Rightarrow> fl_le (take_profit p) (Fin current_price)
      | Short \<Rightarrow> fl_le (Fin current_price) (take_profit p))"

definition opposite_signal :: "direction \<Rightarrow> int" where
  "opposite_signal d = (case d of Long \<Rightarrow> - 1 | Short \<Rightarrow> 1)"

definition close_reason :: "position \<Rightarrow> fl option \<Rightarrow> bar \<Rightarrow> error + string option" where
  "close_reason p ts row =
     (if trailing_hit (direction p) (b_close row) ts then Inr (Some ''trailing_stop'')
      else if stop_loss_hit p (b_close row) then Inr (Some ''stop_loss'')
      else if take_profit_hit p (b_close row) then Inr (Some ''take_profit'')
      else (case b_signal row of
              None \<Rightarrow> Inl (KeyError ''signal'')
            | Some v \<Rightarrow>
                if v = opposite_signal (direction p) then Inr (Some ''opposite_signal'')
                else Inr None))"

text \<open>Lines 110-131: closing. \<open>s\<close> already holds the updated trailing stop.\<close>

definition closed_trade ::
  "position \<Rightarrow> bar \<Rightarrow> fl option \<Rightarrow> real \<Rightarrow> real \<Rightarrow> string \<Rightarrow> trade" where
  "closed_trade p row ts pnl bal reason =
     \<lparr>t_entry_time = entry_time p,
      t_symbol = symbol p,
      t_direction = direction p,
      t_entry_price = entry_price p,
      t_lot_size = lot_size p,
      t_stop_loss = stop_loss p,
      t_take_profit = take_profit p,
      t_trailing_stop = ts,
      t_exit_time = Some (b_time row),
      t_exit_price = Some (b_close row),
      t_pnl = Some pnl,
      t_balance = Some bal,
      t_exit_reason = Some reason,
      t_entry_reason = None,
      t_status = None\<rparr>"

definition close_position ::
  "backtester \<Rightarrow> bar \<Rightarrow> position \<Rightarrow> string \<Rightarrow> sim_state \<Rightarrow> sim_state" where
  "close_position self row p reason s =
     (let pnl = calculate_pnl self p (b_close row);
          bal = balance s + pnl
      in s\<lparr>balance := bal,
            equity := bal,
            trades := trades s @ [closed_trade p row (trailing_stop s) pnl bal reason],
            position := None,
            trailing_stop := None\<rparr>)"

definition manage_position :: "backtester \<Rightarrow> bar \<Rightarrow> sim_state \<Rightarrow> error + sim_state" where
  "manage_position self row s =
     (case position s of
        None \<Rightarrow> Inr s
      | Some p \<Rightarrow>
          (let s1 = s\<lparr>trailing_stop :=
                 update_trailing_stop (direction p) (b_close row) (b_atr row) (trailing_stop s)\<rparr>
           in case close_reason p (trailing_stop s1) row of
                Inl e \<Rightarrow> Inl e
              | Inr None \<Rightarrow> Inr s1
              | Inr (Some reason) \<Rightarrow> Inr (close_position self row p reason s1)))"

text \<open>
  Lines 132-192: entries. In the source the two dictionary literals
  \<^verbatim>\<open>position = {...}\<close> are indented one level less than the statements around them,
  so that the file as it stands is rejected by the Python parser (unexpected indent at
  the entry log that follows). The only reading under which the \<^verbatim>\<open>if\<close>/\<^verbatim>\<open>elif\<close>
  pair is well formed puts each literal and its entry log inside its branch; that
  reading is the one modelled.

  The lot size: \<^verbatim>\<open>(risk_per_trade * balance) / (stop_dist * pip_value) if stop_dist > 0
  else self.lot_size\<close>. A NaN stop distance is not \<^verbatim>\<open>> 0\<close>. A zero product in the
  denominator (a zero \<^verbatim>\<open>pip_value\<close>) has no finite quotient; the run is cut off there with
  \<open>ZeroDivisionError\<close>.
\<close>

definition dynamic_lot_size :: "backtester \<Rightarrow> real \<Rightarrow> fl \<Rightarrow> error + real" where
  "dynamic_lot_size self bal stop_dist =
     (if fl_lt (Fin 0) stop_dist
      then (case fl_mul stop_dist (Fin (self_pip_value self)) of
              Fin m \<Rightarrow>
                if m = 0 then Inl ZeroDivisionError
                else Inr (self_risk_per_trade self * bal / m)
            | NaN \<Rightarrow> Inl ZeroDivisionError)
      else Inr (self_lot_size self))"

definition entry_price_of :: "backtester \<Rightarrow> direction \<Rightarrow> real \<Rightarrow> real" where
  "entry_price_of self d current_price =
     (case d of
        Long \<Rightarrow> current_price + self_spread self
      | Short \<Rightarrow> current_price - self_spread self)"

definition entry_stop_loss :: "direction \<Rightarrow> real \<Rightarrow> fl option \<Rightarrow> fl" where
  "entry_stop_loss d ep atr =
     (case atr of
        Some a \<Rightarrow>
          (case d of
             Long \<Rightarrow> fl_sub (Fin ep) (fl_mul (Fin ATR_STOP_LOSS_MULTIPLIER) a)
           | Short \<Rightarrow> fl_add (Fin ep) (fl_mul (Fin ATR_STOP_LOSS_MULTIPLIER) a))
      | None \<Rightarrow>
          (case d of
             Long \<Rightarrow> Fin (ep * (97 / 100))
           | Short \<Rightarrow> Fin (ep * (103 / 100))))"

definition entry_take_profit :: "direction \<Rightarrow> real \<Rightarrow> fl option \<Rightarrow> fl" where
  "entry_take_profit d ep atr =
     (case atr of
        Some a \<Rightarrow>
          (case d of
             Long \<Rightarrow> fl_add (Fin ep) (fl_mul (Fin ATR_TAKE_PROFIT_MULTIPLIER) a)
           | Short \<Rightarrow> fl_sub (Fin ep) (fl_mul (Fin ATR_TAKE_PROFIT_MULTIPLIER) a))
      | None \<Rightarrow>
          (case d of
             Long \<Rightarrow> Fin (ep * (103 / 100))
           | Short \<Rightarrow> Fin (ep * (97 / 100))))"

definition entry_reason_of :: "direction \<Rightarrow> string" where
  "entry_reason_of d =
     (case d of
        Long \<Rightarrow> ''Buy signal: MA crossover + filters''
      | Short \<Rightarrow> ''Sell signal: MA crossover + filters'')"

definition entry_log ::
  "bar \<Rightarrow> direction \<Rightarrow> real \<Rightarrow> real \<Rightarrow> fl \<Rightarrow> fl \<Rightarrow> fl option \<Rightarrow> trade" where
  "entry_log row d ep lots sl tp ts =
     \<lparr>t_entry_time = b_time row,
      t_symbol = ''symbol'',
      t_direction = d,
      t_entry_price = ep,
      t_lot_size = lots,
      t_stop_loss = sl,
      t_take_profit = tp,
      t_trailing_stop = ts,
      t_exit_time = None,
      t_exit_price = None,
      t_pnl = None,
      t_balance = None,
      t_exit_reason = None,
      t_entry_reason = Some (entry_reason_of d),
      t_status = Some ''open''\<rparr>"

definition open_position ::
  "backtester \<Rightarrow> bar \<Rightarrow> direction \<Rightarrow> sim_state \<Rightarrow> error + sim_state" where
  "open_position self row d s =
     (let ep = entry_price_of self d (b_close row);
          sl = entry_stop_loss d ep (b_atr row);
          tp = entry_take_profit d ep (b_atr row);
          stop_dist = fl_abs (fl_sub (Fin ep) sl)
      in case dynamic_lot_size self (balance s) stop_dist of
           Inl e \<Rightarrow> Inl e
         | Inr lots \<Rightarrow>
             (let ts = new_trailing d ep (b_atr row)
              in Inr (s\<lparr>position := Some
                          \<lparr>entry_time = b_time row,
                            entry_price = ep,
                            direction = d,
                            lot_size = lots,
                            symbol = ''symbol'',
                            stop_loss = sl,
                            take_profit = tp\<rparr>,
                        trailing_stop := ts,
                        trades := trades s @ [entry_log row d ep lots sl tp ts]\<rparr>)))"

definition handle_signals :: "backtester \<Rightarrow> bar \<Rightarrow> sim_state \<Rightarrow> error + sim_state" where
  "handle_signals self row s =
     (if drawdown_triggered s then Inr s
      else (case position s of
              Some p \<Rightarrow> Inr s
            | None \<Rightarrow>
                (case b_Signal row of
                   None \<Rightarrow> Inl (KeyError ''Signal'')
                 | Some v \<Rightarrow>
                     if v = 1 then open_position self row Long s
                     else if v = - 1 then open_position self row Short s
                     else Inr s)))"

text \<open>Lines 193-202: mark to market and one point of the equity curve.\<close>

definition update_equity_curve :: "backtester \<Rightarrow> bar \<Rightarrow> sim_state \<Rightarrow> sim_state" where
  "update_equity_curve self row s =
     (let eq = (case position s of
                  Some p \<Rightarrow> balance s + calculate_pnl self p (b_close row)
                | None \<Rightarrow> equity s)
      in s\<lparr>equity := eq,
            equity_curve := equity_curve s @
              [\<lparr>ep_time = b_time row,
                ep_balance = balance s,
                ep_equity = eq,
                ep_position = (position s \<noteq> None)\<rparr>]\<rparr>)"

definition bar_step :: "backtester \<Rightarrow> bar \<Rightarrow> sim_state \<Rightarrow> error + sim_state" where
  "bar_step self row s =
     (case manage_position self row (update_drawdown self s) of
        Inl e \<Rightarrow> Inl e
      | Inr s1 \<Rightarrow>
          (case handle_signals self row s1 of
             Inl e \<Rightarrow> Inl e
           | Inr s2 \<Rightarrow> Inr (update_equity_curve self row s2)))"

fun simulate_from :: "backtester \<Rightarrow> bar list \<Rightarrow> sim_state \<Rightarrow> error + sim_state" where
  "simulate_from self [] s = Inr s"
| "simulate_from self (row # rows) s =
     (case bar_step self row s of
        Inl e \<Rightarrow> Inl e
      | Inr s' \<Rightarrow> simulate_from self rows s')"

text \<open>
  \<^verbatim>\<open>_simulate_trading\<close>: the locals start from the literal balance 10000; the two
  lists are what \<^verbatim>\<open>self.trades\<close> and \<^verbatim>\<open>self.equity_curve\<close> hold at the call (empty for
  a new \<^verbatim>\<open>Backtester\<close>).
\<close>

definition initial_state :: "trade list \<Rightarrow> equity_point list \<Rightarrow> sim_state" where
  "initial_state trades0 curve0 =
     \<lparr>balance = 10000,
      equity = 10000,
      position = None,
      trailing_stop = None,
      max_equity = 10000,
      drawdown_triggered = False,
      trades = trades0,
      equity_curve = curve0\<rparr>"

definition simulate_trading ::
  "backtester \<Rightarrow> bar list \<Rightarrow> trade list \<Rightarrow> equity_point list \<Rightarrow> error + sim_state" where
  "simulate_trading self rows trades0 curve0 =
     simulate_from self rows (initial_state trades0 curve0)"

section \<open>Performance evaluation\<close>

text \<open>
  \<^verbatim>\<open>_calculate_performance\<close> returns a dictionary; it is the list of its keys and
  values in the order of the literal. The Sharpe ratio is computed by pandas and numpy
  (\<^verbatim>\<open>pct_change\<close>, \<^verbatim>\<open>std\<close>, \<^verbatim>\<open>sqrt\<close>) on the equity values; that computation is the
  parameter \<open>sharpe\<close>.
\<close>

datatype pyval = Num real | Trades "trade list" | Curve "equity_point list"

type_synonym summary = "(string \<times> pyval) list"

text \<open>
  \<^verbatim>\<open>t['pnl']\<close> for every element of the list, in order, as the comprehension
  \<^verbatim>\<open>[t for t in self.trades if t['pnl'] > 0]\<close> reads it: the first dictionary without
  the key raises \<^verbatim>\<open>KeyError\<close>.
\<close>

fun pnl_values :: "trade list \<Rightarrow> error + real list" where
  "pnl_values [] = Inr []"
| "pnl_values (t # ts) =
     (case t_pnl t of
        None \<Rightarrow> Inl (KeyError ''pnl'')
      | Some v \<Rightarrow>
          (case pnl_values ts of
             Inl e \<Rightarrow> Inl e
           | Inr vs \<Rightarrow> Inr (v # vs)))"

definition mean :: "real list \<Rightarrow> real" where
  "mean xs = sum_list xs / real (length xs)"

text \<open>The loop over \<^verbatim>\<open>equity_values\<close>; a zero peak has no quotient.\<close>

fun drawdown_loop :: "real \<Rightarrow> real \<Rightarrow> real list \<Rightarrow> error + real" where
  "drawdown_loop peak md [] = Inr md"
| "drawdown_loop peak md (e # es) =
     (let peak' = (if e > peak then e else peak)
      in if peak' = 0 then Inl ZeroDivisionError
         else drawdown_loop peak' (max md ((peak' - e) / peak')) es)"

definition calculate_performance ::
  "(real list \<Rightarrow> real) \<Rightarrow> trade list \<Rightarrow> equity_point list \<Rightarrow> error + summary" where
  "calculate_performance sharpe self_trades self_equity_curve =
     (if self_trades = [] then
        Inr [(''total_return'', Num 0),
             (''num_trades'', Num 0),
             (''win_rate'', Num 0),
             (''avg_win'', Num 0),
             (''avg_loss'', Num 0),
             (''max_drawdown'', Num 0),
             (''sharpe_ratio'', Num 0)]
      else
        (case pnl_values self_trades of
           Inl e \<Rightarrow> Inl e
         | Inr pnls \<Rightarrow>
            (let total_trades = length self_trades;
                 winning = filter (\<lambda>v. v > 0) pnls;
                 losing = filter (\<lambda>v. v \<le> 0) pnls;
                 win_rate = (if total_trades > 0
                             then real (length winning) / real total_trades else 0);
                 avg_win = (if winning \<noteq> [] then mean winning else 0);
                 avg_loss = (if losing \<noteq> [] then mean losing else 0)
             in case t_balance (last self_trades) of
                  None \<Rightarrow> Inl (KeyError ''balance'')
                | Some final_balance \<Rightarrow>
                   (let total_return = (final_balance - 10000) / 10000;
                        equity_values = map ep_equity self_equity_curve
                    in case equity_values of
                         [] \<Rightarrow> Inl IndexError
                       | e0 # _ \<Rightarrow>
                          (case drawdown_loop e0 0 equity_values of
                             Inl e \<Rightarrow> Inl e
                           | Inr max_dd \<Rightarrow>
                               Inr [(''total_return'', Num total_return),
                                    (''num_trades'', Num (real total_trades)),
                                    (''win_rate'', Num win_rate),
                                    (''avg_win'', Num avg_win),
                                    (''avg_loss'', Num avg_loss),
                                    (''max_drawdown'', Num max_dd),
                                    (''sharpe_ratio'', Num (sharpe equity_values)),
                                    (''final_balance'', Num final_balance),
                                    (''trades'', Trades self_trades),
                                    (''equity_curve'', Curve self_equity_curve)])))))"

section \<open>RiskManager (risk/risk_manager.py)\<close>

text \<open>
  An element of \<^verbatim>\<open>open_positions\<close>, with the keys the checks below read.
  \<^verbatim>\<open>pos.get('unrealized_pnl', 0)\<close> allows the key to be missing.
\<close>

record rm_position =
  rp_symbol :: string
  rp_direction :: string
  rp_unrealized_pnl :: "real option"

record risk_manager =
  account_balance :: real
  max_risk_per_trade :: real
  max_portfolio_risk :: real
  stop_loss_pct :: real
  take_profit_pct :: real
  max_positions :: int
  rm_lot_size :: real
  max_drawdown_per_symbol :: real
  max_drawdown_per_session :: real
  circuit_breaker_losses :: int
  open_positions :: "rm_position list"
  trade_history :: "(string \<times> real \<times> string) list"
  session_start_balance :: real
  consecutive_losses :: int
  circuit_breaker_triggered :: bool

text \<open>\<^verbatim>\<open>RiskManager(...)\<close> with its constructor arguments.\<close>

definition new_risk_manager ::
  "real \<Rightarrow> real \<Rightarrow> real \<Rightarrow> real \<Rightarrow> real \<Rightarrow> int \<Rightarrow> real \<Rightarrow> real \<Rightarrow> real \<Rightarrow> int \<Rightarrow> risk_manager"
  where
  "new_risk_manager bal risk prisk slp tpp maxpos lots dd_symbol dd_session cb_losses =
     \<lparr>account_balance = bal,
      max_risk_per_trade = risk,
      max_portfolio_risk = prisk,
      stop_loss_pct = slp,
      take_profit_pct = tpp,
      max_positions = maxpos,
      rm_lot_size = lots,
      max_drawdown_per_symbol = dd_symbol,
      max_drawdown_per_session = dd_session,
      circuit_breaker_losses = cb_losses,
      open_positions = [],
      trade_history = [],
      session_start_balance = bal,
      consecutive_losses = 0,
      circuit_breaker_triggered = False\<rparr>"

text \<open>The defaults of the constructor (\<^verbatim>\<open>lot_size=DEFAULT_LOT_SIZE\<close>, 0.02).\<close>

definition default_risk_manager :: risk_manager where
  "default_risk_manager =
     new_risk_manager 10000 (2 / 100) (6 / 100) (30 / 100) (60 / 100) 10 (2 / 100)
       (5 / 100) (10 / 100) 5"

definition reset_session :: "risk_manager \<Rightarrow> risk_manager" where
  "reset_session rm =
     rm\<lparr>session_start_balance := account_balance rm,
        consecutive_losses := 0,
        circuit_breaker_triggered := False\<rparr>"

text \<open>The methods that return a value and may change the object return both.\<close>

definition check_circuit_breaker :: "risk_manager \<Rightarrow> bool \<times> risk_manager" where
  "check_circuit_breaker rm =
     (if consecutive_losses rm \<ge> circuit_breaker_losses rm
      then (False, rm\<lparr>circuit_breaker_triggered := True\<rparr>)
      else (True, rm))"

definition unrealized_pnl_or_0 :: "rm_position \<Rightarrow> real" where
  "unrealized_pnl_or_0 pos = (case rp_unrealized_pnl pos of None \<Rightarrow> 0 | Some v \<Rightarrow> v)"

definition check_drawdown_limits :: "risk_manager \<Rightarrow> string \<Rightarrow> error + bool" where
  "check_drawdown_limits rm symb =
     (if session_start_balance rm = 0 then Inl ZeroDivisionError
      else if (session_start_balance rm - account_balance rm) / session_start_balance rm
                > max_drawdown_per_session rm
      then Inr False
      else
        (let symbol_positions = filter (\<lambda>pos. rp_symbol pos = symb) (open_positions rm)
         in if symbol_positions \<noteq> [] then
              (if account_balance rm = 0 then Inl ZeroDivisionError
               else if \<bar>sum_list (map unrealized_pnl_or_0 symbol_positions)\<bar> / account_balance rm
                         > max_drawdown_per_symbol rm
               then Inr False
               else Inr True)
            else Inr True))"

text \<open>
  \<^verbatim>\<open>record_trade_result\<close>; the time stamp of the history entry is left out.
\<close>

definition record_trade_result ::
  "risk_manager \<Rightarrow> string \<Rightarrow> real \<Rightarrow> string \<Rightarrow> risk_manager" where
  "record_trade_result rm symb pnl win_loss =
     rm\<lparr>trade_history := trade_history rm @ [(symb, pnl, win_loss)],
        consecutive_losses :=
          (if win_loss = ''loss'' then consecutive_losses rm + 1 else 0)\<rparr>"

text \<open>
  \<^verbatim>\<open>calculate_position_size\<close>: the body of the \<^verbatim>\<open>try\<close> assigns the literal 0.01,
  logs and returns it; nothing in it reads an argument or the object.
\<close>

definition calculate_position_size ::
  "risk_manager \<Rightarrow> real \<Rightarrow> real \<Rightarrow> 'a option \<Rightarrow> real option \<Rightarrow> real option \<Rightarrow> real" where
  "calculate_position_size rm entry_price' stop_loss_price symbol_info atr risk_percent =
     1 / 100"

text \<open>The loop of \<^verbatim>\<open>calculate_portfolio_risk\<close>, with its division by the balance.\<close>

fun portfolio_risk_loop :: "real \<Rightarrow> real \<Rightarrow> rm_position list \<Rightarrow> error + real" where
  "portfolio_risk_loop bal total_risk [] = Inr total_risk"
| "portfolio_risk_loop bal total_risk (pos # rest) =
     (if bal = 0 then Inl ZeroDivisionError
      else portfolio_risk_loop bal (total_risk + \<bar>unrealized_pnl_or_0 pos\<bar> / bal) rest)"

definition calculate_portfolio_risk :: "risk_manager \<Rightarrow> error + real" where
  "calculate_portfolio_risk rm =
     (if open_positions rm = [] then Inr 0
      else portfolio_risk_loop (account_balance rm) 0 (open_positions rm))"

definition can_open_position :: "risk_manager \<Rightarrow> string \<Rightarrow> error + bool \<times> risk_manager" where
  "can_open_position rm symb =
     (case check_circuit_breaker rm of
        (False, rm1) \<Rightarrow> Inr (False, rm1)
      | (True, rm1) \<Rightarrow>
          (case check_drawdown_limits rm1 symb of
             Inl e \<Rightarrow> Inl e
           | Inr False \<Rightarrow> Inr (False, rm1)
           | Inr True \<Rightarrow>
               if int (length (open_positions rm1)) \<ge> max_positions rm1 then Inr (False, rm1)
               else
                 (case calculate_portfolio_risk rm1 of
                    Inl e \<Rightarrow> Inl e
                  | Inr current_portfolio_risk \<Rightarrow>
                      if current_portfolio_risk \<ge> max_portfolio_risk rm1 then Inr (False, rm1)
                      else Inr (True, rm1))))"

text \<open>A run of calls of \<^verbatim>\<open>record_trade_result\<close>, one per result, in order.\<close>

fun record_results :: "risk_manager \<Rightarrow> (string \<times> real \<times> string) list \<Rightarrow> risk_manager" where
  "record_results rm [] = rm"
| "record_results rm ((symb, pnl, win_loss) # rest) =
     record_results (record_trade_result rm symb pnl win_loss) rest"

section \<open>Notions used by the statements\<close>

text \<open>
  The sum of \<^verbatim>\<open>pnl\<close> over a list of trade dictionaries. An entry log has no
  \<^verbatim>\<open>pnl\<close> key and adds nothing.
\<close>

definition sum_pnl :: "trade list \<Rightarrow> real" where
  "sum_pnl ts = sum_list (map (\<lambda>t. case t_pnl t of None \<Rightarrow> 0 | Some v \<Rightarrow> v) ts)"

text \<open>The entry logs of a trade list: one per position opened.\<close>

definition entry_logs :: "trade list \<Rightarrow> trade list" where
  "entry_logs ts = filter (\<lambda>t. t_status t = Some ''open'') ts"

text \<open>
  The states at the loop head, one after each bar, up to the end of the rows or to the
  bar that raises.
\<close>

fun trace_from :: "backtester \<Rightarrow> bar list \<Rightarrow> sim_state \<Rightarrow> sim_state list" where
  "trace_from self [] s = [s]"
| "trace_from self (row # rows) s =
     s # (case bar_step self row s of Inl e \<Rightarrow> [] | Inr s' \<Rightarrow> trace_from self rows s')"

text \<open>
  \<open>new\<close> is not looser than \<open>old\<close>: it is the first value after \<^verbatim>\<open>None\<close>, or the same
  value, or strictly higher for a long position and strictly lower for a short one.
\<close>

definition tighter_or_equal :: "direction \<Rightarrow> fl option \<Rightarrow> fl option \<Rightarrow> bool" where
  "tighter_or_equal d old new =
     (case old of
        None \<Rightarrow> True
      | Some t \<Rightarrow>
          (case new of
             None \<Rightarrow> False
           | Some n \<Rightarrow> n = t \<or> (case d of Long \<Rightarrow> fl_lt t n | Short \<Rightarrow> fl_lt n t)))"

text \<open>
  What one bar does to the trailing stop of the position \<open>p\<close> that is open at its start.
  If the bar appends no trade dictionary, \<open>p\<close> is still open and its trailing stop is
  not looser. Otherwise the first dictionary appended is the closed trade of \<open>p\<close>, exited
  at this bar, and the trailing stop it records is not looser.
\<close>

definition kept_or_closed :: "position \<Rightarrow> sim_state \<Rightarrow> sim_state \<Rightarrow> bool" where
  "kept_or_closed p s s' =
     (if length (trades s') = length (trades s)
      then position s' = Some p
         \<and> tighter_or_equal (direction p) (trailing_stop s) (trailing_stop s')
      else length (trades s) < length (trades s')
         \<and> t_exit_time (trades s' ! length (trades s)) = Some (ep_time (last (equity_curve s')))
         \<and> tighter_or_equal (direction p) (trailing_stop s)
              (t_trailing_stop (trades s' ! length (trades s))))"

text \<open>
  The stop distance the entry code computes, \<^verbatim>\<open>abs(entry_price - sl)\<close>, as a
  function of the row and the direction.
\<close>

definition stop_dist_of :: "backtester \<Rightarrow> bar \<Rightarrow> direction \<Rightarrow> fl" where
  "stop_dist_of self row d =
     fl_abs (fl_sub (Fin (entry_price_of self d (b_close row)))
       (entry_stop_loss d (entry_price_of self d (b_close row)) (b_atr row)))"

text \<open>
  The first dictionary of \<^verbatim>\<open>self.trades\<close> has no \<^verbatim>\<open>pnl\<close> key; an empty list goes with
  no open position.
\<close>

definition starts_with_entry_log :: "sim_state \<Rightarrow> bool" where
  "starts_with_entry_log s =
     (case trades s of
        [] \<Rightarrow> position s = None
      | t # ts \<Rightarrow> t_pnl t = None)"

section \<open>A concrete run\<close>

text \<open>
  A row of a frame that has both columns \<^verbatim>\<open>signal\<close> and \<^verbatim>\<open>Signal\<close>, with a
  numeric ATR.
\<close>

definition frame_row :: "nat \<Rightarrow> real \<Rightarrow> int \<Rightarrow> int \<Rightarrow> real \<Rightarrow> bar" where
  "frame_row i c sig_lower sig_upper a =
     \<lparr>b_time = i, b_close = c, b_signal = Some sig_lower, b_Signal = Some sig_upper,
      b_atr = Some (Fin a)\<rparr>"

text \<open>The constructor's defaults, with a zero spread.\<close>

definition scenario_backtester :: backtester where
  "scenario_backtester =
     \<lparr>self_lot_size = 2 / 100, self_commission = 1 / 10000, self_spread = 0,
      self_risk_per_trade = 1 / 100, self_pip_value = 1, self_max_drawdown = 2 / 10\<rparr>"

text \<open>
  A long entry at 2000 with ATR 5 (stop loss 1990, take profit 2020, trailing stop 1990),
  a rise to 2010 (trailing stop 2000), a fall to 1999 (exit on the trailing stop), and a
  buy signal after the loss.
\<close>

definition scenario_rows :: "bar list" where
  "scenario_rows =
     [frame_row 0 2000 0 1 5, frame_row 1 2010 0 0 5, frame_row 2 1999 0 0 5,
      frame_row 3 2000 0 1 5]"

text \<open>
  A second run: the same entry, then a fall that takes the equity 31 percent under its
  peak while the position stays open. \<open>drawdown_state\<close> is the state at the head of the
  next bar.
\<close>

definition drawdown_rows :: "bar list" where
  "drawdown_rows = [frame_row 0 2000 0 1 5, frame_row 1 (1999997 / 1000) 0 0 5]"

definition drawdown_state :: sim_state where
  "drawdown_state = projr (simulate_trading scenario_backtester drawdown_rows [] [])"

text \<open>The position both runs open on their first bar.\<close>

definition scenario_position :: position where
  "scenario_position =
     \<lparr>entry_time = 0, entry_price = 2000, direction = Long, lot_size = 10,
      symbol = ''symbol'', stop_loss = Fin 1990, take_profit = Fin 2020\<rparr>"

text \<open>
  A row of a frame as \<^verbatim>\<open>generate_signals\<close> builds it: the column \<^verbatim>\<open>Signal\<close> and no
  column \<^verbatim>\<open>signal\<close>.
\<close>

definition strategy_row :: "nat \<Rightarrow> real \<Rightarrow> int \<Rightarrow> real \<Rightarrow> bar" where
  "strategy_row i c sig_upper a =
     \<lparr>b_time = i, b_close = c, b_signal = None, b_Signal = Some sig_upper,
      b_atr = Some (Fin a)\<rparr>"

text \<open>Five losing trades, as arguments of \<^verbatim>\<open>record_trade_result\<close>.\<close>

definition five_losses :: "(string \<times> real \<times> string) list" where
  "five_losses =
     [(''XAUUSD'', - 10, ''loss''), (''XAUUSD'', - 10, ''loss''), (''XAUUSD'', - 10, ''loss''),
      (''XAUUSD'', - 10, ''loss''), (''XAUUSD'', - 10, ''loss'')]"

section \<open>Theorems\<close>

subsection \<open>Evaluation of concrete runs\<close>

lemmas run_defs =
  simulate_trading_def initial_state_def bar_step_def update_drawdown_def current_drawdown_def
  manage_position_def handle_signals_def open_position_def entry_price_of_def
  entry_stop_loss_def entry_take_profit_def dynamic_lot_size_def new_trailing_def
  update_equity_curve_def calculate_pnl_def close_reason_def trailing_hit_def
  stop_loss_hit_def take_profit_hit_def update_trailing_stop_def opposite_signal_def
  close_position_def closed_trade_def entry_log_def entry_reason_of_def
  ATR_MULTIPLIER_def ATR_STOP_LOSS_MULTIPLIER_def ATR_TAKE_PROFIT_MULTIPLIER_def Let_def
  frame_row_def scenario_backtester_def scenario_rows_def

lemma scenario_run:
  "\<exists>s. simulate_trading scenario_backtester scenario_rows [] [] = Inr s
     \<and> balance s = - 990100 \<and> length (trades s) = 2 \<and> drawdown_triggered s"
  by (simp add: run_defs)

subsection \<open>Frame lemmas for the phases of a bar\<close>

lemma sum_pnl_Nil: "sum_pnl [] = 0"
  by (simp add: sum_pnl_def)

lemma sum_pnl_append: "sum_pnl (xs @ ys) = sum_pnl xs + sum_pnl ys"
  by (simp add: sum_pnl_def)

lemma sum_pnl_closed: "sum_pnl [closed_trade p row ts pnl bal reason] = pnl"
  by (simp add: sum_pnl_def closed_trade_def)

lemma sum_pnl_entry: "sum_pnl [entry_log row d ep lots sl tp ts] = 0"
  by (simp add: sum_pnl_def entry_log_def)

lemma update_drawdown_frame:
  "trades (update_drawdown self s) = trades s"
  "balance (update_drawdown self s) = balance s"
  "position (update_drawdown self s) = position s"
  "trailing_stop (update_drawdown self s) = trailing_stop s"
  "equity (update_drawdown self s) = equity s"
  "equity_curve (update_drawdown self s) = equity_curve s"
  by (simp_all add: update_drawdown_def)

lemma update_equity_curve_frame:
  "trades (update_equity_curve self row s) = trades s"
  "balance (update_equity_curve self row s) = balance s"
  "position (update_equity_curve self row s) = position s"
  "trailing_stop (update_equity_curve self row s) = trailing_stop s"
  "drawdown_triggered (update_equity_curve self row s) = drawdown_triggered s"
  "max_equity (update_equity_curve self row s) = max_equity s"
  by (simp_all add: update_equity_curve_def Let_def)

lemma close_position_sel:
  "balance (close_position self row p r s) = balance s + calculate_pnl self p (b_close row)"
  "equity (close_position self row p r s) = balance s + calculate_pnl self p (b_close row)"
  "position (close_position self row p r s) = None"
  "trailing_stop (close_position self row p r s) = None"
  "drawdown_triggered (close_position self row p r s) = drawdown_triggered s"
  "max_equity (close_position self row p r s) = max_equity s"
  "equity_curve (close_position self row p r s) = equity_curve s"
  "trades (close_position self row p r s) =
     trades s @ [closed_trade p row (trailing_stop s) (calculate_pnl self p (b_close row))
                   (balance s + calculate_pnl self p (b_close row)) r]"
  by (simp_all add: close_position_def Let_def)

text \<open>What each phase can do, case by case.\<close>

lemma manage_position_cases:
  assumes "manage_position self row s = Inr s'"
  obtains
    (flat) "position s = None" "s' = s"
  | (keep) p ts where "position s = Some p"
      "ts = update_trailing_stop (direction p) (b_close row) (b_atr row) (trailing_stop s)"
      "close_reason p ts row = Inr None"
      "s' = s\<lparr>trailing_stop := ts\<rparr>"
  | (close) p ts r where "position s = Some p"
      "ts = update_trailing_stop (direction p) (b_close row) (b_atr row) (trailing_stop s)"
      "close_reason p ts row = Inr (Some r)"
      "s' = close_position self row p r (s\<lparr>trailing_stop := ts\<rparr>)"
  using assms
  by (auto simp add: manage_position_def Let_def split: option.splits sum.splits)

lemma open_position_cases:
  assumes "open_position self row d s = Inr s'"
  obtains lots where
    "dynamic_lot_size self (balance s)
       (fl_abs (fl_sub (Fin (entry_price_of self d (b_close row)))
          (entry_stop_loss d (entry_price_of self d (b_close row)) (b_atr row)))) = Inr lots"
    "s' = s\<lparr>position := Some
               \<lparr>entry_time = b_time row,
                 entry_price = entry_price_of self d (b_close row),
                 direction = d,
                 lot_size = lots,
                 symbol = ''symbol'',
                 stop_loss = entry_stop_loss d (entry_price_of self d (b_close row)) (b_atr row),
                 take_profit =
                   entry_take_profit d (entry_price_of self d (b_close row)) (b_atr row)\<rparr>,
             trailing_stop := new_trailing d (entry_price_of self d (b_close row)) (b_atr row),
             trades := trades s @
               [entry_log row d (entry_price_of self d (b_close row)) lots
                  (entry_stop_loss d (entry_price_of self d (b_close row)) (b_atr row))
                  (entry_take_profit d (entry_price_of self d (b_close row)) (b_atr row))
                  (new_trailing d (entry_price_of self d (b_close row)) (b_atr row))]\<rparr>"
  using assms
  by (auto simp add: open_position_def Let_def split: sum.splits)

lemma handle_signals_cases:
  assumes "handle_signals self row s = Inr s'"
  obtains
    (idle) "s' = s"
  | (opened) d where "\<not> drawdown_triggered s" "position s = None"
      "open_position self row d s = Inr s'"
proof (cases "drawdown_triggered s")
  case True
  with assms have "s' = s" by (simp add: handle_signals_def)
  then show ?thesis by (rule idle)
next
  case nt: False
  show ?thesis
  proof (cases "position s")
    case (Some p)
    with assms nt have "s' = s" by (simp add: handle_signals_def)
    then show ?thesis by (rule idle)
  next
    case np: None
    show ?thesis
    proof (cases "b_Signal row")
      case None
      with assms nt np show ?thesis by (simp add: handle_signals_def)
    next
      case (Some v)
      consider "v = 1" | "v = - 1" | "v \<noteq> 1" "v \<noteq> - 1" by blast
      then show ?thesis
      proof cases
        case 1
        with assms nt np Some have "open_position self row Long s = Inr s'"
          by (simp add: handle_signals_def)
        with nt np show ?thesis by (rule opened)
      next
        case 2
        with assms nt np Some have "open_position self row Short s = Inr s'"
          by (simp add: handle_signals_def)
        with nt np show ?thesis by (rule opened)
      next
        case 3
        with assms nt np Some have "s' = s" by (simp add: handle_signals_def)
        then show ?thesis by (rule idle)
      qed
    qed
  qed
qed

lemma bar_step_cases:
  assumes "bar_step self row s = Inr s'"
  obtains s1 s2 where
    "manage_position self row (update_drawdown self s) = Inr s1"
    "handle_signals self row s1 = Inr s2"
    "s' = update_equity_curve self row s2"
  using assms
  by (auto simp add: bar_step_def split: sum.splits)

subsection \<open>The balance moves by the PnL of the trades appended\<close>

lemma manage_position_balance:
  assumes "manage_position self row s = Inr s'"
  shows "\<exists>new. trades s' = trades s @ new \<and> balance s' = balance s + sum_pnl new"
  using assms
proof (cases rule: manage_position_cases)
  case flat
  then show ?thesis by (simp add: sum_pnl_Nil)
next
  case (keep p ts)
  then show ?thesis by (simp add: sum_pnl_Nil)
next
  case (close p ts r)
  then show ?thesis by (simp add: close_position_sel sum_pnl_closed)
qed

lemma open_position_balance:
  assumes "open_position self row d s = Inr s'"
  shows "\<exists>new. trades s' = trades s @ new \<and> balance s' = balance s + sum_pnl new"
  using assms
proof (cases rule: open_position_cases)
  case (1 lots)
  then show ?thesis by (simp add: sum_pnl_entry)
qed

lemma open_position_leaves_balance:
  assumes "open_position self row d s = Inr s'"
  shows "balance s' = balance s"
  using assms by (cases rule: open_position_cases) simp

lemma handle_signals_balance:
  assumes "handle_signals self row s = Inr s'"
  shows "\<exists>new. trades s' = trades s @ new \<and> balance s' = balance s + sum_pnl new"
  using assms
proof (cases rule: handle_signals_cases)
  case idle
  then show ?thesis by (simp add: sum_pnl_Nil)
next
  case (opened d)
  then show ?thesis by (simp add: open_position_balance)
qed

lemma bar_step_balance:
  assumes "bar_step self row s = Inr s'"
  shows "\<exists>new. trades s' = trades s @ new \<and> balance s' = balance s + sum_pnl new"
  using assms
proof (cases rule: bar_step_cases)
  case (1 s1 s2)
  from manage_position_balance [OF 1(1)] obtain n1 where
    n1: "trades s1 = trades s @ n1" "balance s1 = balance s + sum_pnl n1"
    by (auto simp add: update_drawdown_frame)
  from handle_signals_balance [OF 1(2)] obtain n2 where
    n2: "trades s2 = trades s1 @ n2" "balance s2 = balance s1 + sum_pnl n2"
    by auto
  have "trades s' = trades s @ (n1 @ n2)" "balance s' = balance s + sum_pnl (n1 @ n2)"
    using 1(3) n1 n2 by (simp_all add: update_equity_curve_frame sum_pnl_append)
  then show ?thesis by blast
qed

lemma simulate_from_balance:
  assumes "simulate_from self rows s = Inr s'"
  shows "\<exists>new. trades s' = trades s @ new \<and> balance s' = balance s + sum_pnl new"
  using assms
proof (induction rows arbitrary: s)
  case Nil
  then show ?case by (simp add: sum_pnl_Nil)
next
  case (Cons row rows)
  from Cons.prems obtain s1 where
    step: "bar_step self row s = Inr s1" and rest: "simulate_from self rows s1 = Inr s'"
    by (auto split: sum.splits)
  from bar_step_balance [OF step] obtain n1 where
    n1: "trades s1 = trades s @ n1" "balance s1 = balance s + sum_pnl n1"
    by auto
  from Cons.IH [OF rest] obtain n2 where
    n2: "trades s' = trades s1 @ n2" "balance s' = balance s1 + sum_pnl n2"
    by auto
  have "trades s' = trades s @ (n1 @ n2)" "balance s' = balance s + sum_pnl (n1 @ n2)"
    using n1 n2 by (simp_all add: sum_pnl_append)
  then show ?case by blast
qed

text \<open>
  C3. Balance conservation: a run that returns ends with the balance 10000 (the
  starting balance of the source) plus the sum of \<^verbatim>\<open>pnl\<close> over the trade dictionaries
  the run appended to \<^verbatim>\<open>self.trades\<close>. Entry logs carry no \<^verbatim>\<open>pnl\<close>, so opening a
  position leaves the balance as it is; the commission is inside each \<^verbatim>\<open>pnl\<close>.
\<close>

theorem balance_conservation:
  assumes "simulate_trading self rows trades0 curve0 = Inr s"
  shows "balance s = 10000 + sum_pnl (drop (length trades0) (trades s))"
proof -
  from assms have "simulate_from self rows (initial_state trades0 curve0) = Inr s"
    by (simp add: simulate_trading_def)
  from simulate_from_balance [OF this] obtain new where
    "trades s = trades (initial_state trades0 curve0) @ new"
    "balance s = balance (initial_state trades0 curve0) + sum_pnl new"
    by auto
  then show ?thesis by (simp add: initial_state_def)
qed

theorem balance_conservation_witness:
  "\<exists>s. simulate_trading scenario_backtester scenario_rows [] [] = Inr s
     \<and> balance s = 10000 + sum_pnl (drop (length ([]::trade list)) (trades s))
     \<and> balance s = - 990100"
proof -
  obtain s where run: "simulate_trading scenario_backtester scenario_rows [] [] = Inr s"
    and b: "balance s = - 990100"
    using scenario_run by blast
  from balance_conservation [OF run] run b show ?thesis by blast
qed

subsection \<open>The drawdown flag is sticky and stops entries\<close>

lemma update_drawdown_sticky:
  assumes "drawdown_triggered s \<or> current_drawdown s > self_max_drawdown self"
  shows "drawdown_triggered (update_drawdown self s)"
  using assms by (auto simp add: update_drawdown_def)

lemma entry_logs_append: "entry_logs (xs @ ys) = entry_logs xs @ entry_logs ys"
  by (simp add: entry_logs_def)

lemma entry_logs_closed: "entry_logs [closed_trade p row ts pnl bal reason] = []"
  by (simp add: entry_logs_def closed_trade_def)

lemma manage_position_halted:
  assumes "manage_position self row s = Inr s'"
  shows "drawdown_triggered s' = drawdown_triggered s
       \<and> entry_logs (trades s') = entry_logs (trades s)
       \<and> (position s' = None \<or> position s' = position s)"
  using assms
proof (cases rule: manage_position_cases)
  case flat
  then show ?thesis by simp
next
  case (keep p ts)
  then show ?thesis by simp
next
  case (close p ts r)
  then show ?thesis
    by (simp add: close_position_sel entry_logs_append entry_logs_closed)
qed

lemma handle_signals_halted:
  assumes "drawdown_triggered s"
  shows "handle_signals self row s = Inr s"
  using assms by (simp add: handle_signals_def)

lemma bar_step_halted:
  assumes trig: "drawdown_triggered s \<or> current_drawdown s > self_max_drawdown self"
      and step: "bar_step self row s = Inr s'"
  shows "drawdown_triggered s'
       \<and> entry_logs (trades s') = entry_logs (trades s)
       \<and> (position s' = None \<or> position s' = position s)"
  using step
proof (cases rule: bar_step_cases)
  case (1 s1 s2)
  have t0: "drawdown_triggered (update_drawdown self s)"
    using trig by (rule update_drawdown_sticky)
  from manage_position_halted [OF 1(1)] have
    m: "drawdown_triggered s1 = drawdown_triggered (update_drawdown self s)"
       "entry_logs (trades s1) = entry_logs (trades s)"
       "position s1 = None \<or> position s1 = position s"
    by (simp_all add: update_drawdown_frame)
  from m(1) t0 have t1: "drawdown_triggered s1" by simp
  from 1(2) handle_signals_halted [OF t1, of self row] have "s2 = s1" by simp
  with 1(3) m t1 show ?thesis by (simp add: update_equity_curve_frame)
qed

lemma simulate_from_halted:
  assumes "drawdown_triggered s" and "simulate_from self rows s = Inr s'"
  shows "drawdown_triggered s'
       \<and> entry_logs (trades s') = entry_logs (trades s)
       \<and> (position s' = None \<or> position s' = position s)"
  using assms
proof (induction rows arbitrary: s)
  case Nil
  then show ?case by simp
next
  case (Cons row rows)
  from Cons.prems(2) obtain s1 where
    step: "bar_step self row s = Inr s1" and rest: "simulate_from self rows s1 = Inr s'"
    by (auto split: sum.splits)
  from Cons.prems(1) have "drawdown_triggered s \<or> current_drawdown s > self_max_drawdown self"
    by simp
  from bar_step_halted [OF this step] have
    a: "drawdown_triggered s1" "entry_logs (trades s1) = entry_logs (trades s)"
       "position s1 = None \<or> position s1 = position s"
    by simp_all
  from Cons.IH [OF a(1) rest] have
    b: "drawdown_triggered s'" "entry_logs (trades s') = entry_logs (trades s1)"
       "position s' = None \<or> position s' = position s1"
    by simp_all
  from a b show ?case by auto
qed

lemma bar_step_closes:
  assumes trig: "drawdown_triggered s \<or> current_drawdown s > self_max_drawdown self"
      and step: "bar_step self row s = Inr s'"
      and pos: "position s = Some p"
      and hit: "close_reason p (update_trailing_stop (direction p) (b_close row) (b_atr row)
                  (trailing_stop s)) row = Inr (Some r)"
  shows "position s' = None
       \<and> (\<exists>t. trades s' = trades s @ [t] \<and> t_exit_reason t = Some r
              \<and> t_pnl t = Some (calculate_pnl self p (b_close row)))"
  using step
proof (cases rule: bar_step_cases)
  case (1 s1 s2)
  have t0: "drawdown_triggered (update_drawdown self s)"
    using trig by (rule update_drawdown_sticky)
  from 1(1) pos hit have
    s1: "s1 = close_position self row p r
           ((update_drawdown self s)\<lparr>trailing_stop :=
               update_trailing_stop (direction p) (b_close row) (b_atr row) (trailing_stop s)\<rparr>)"
    by (simp add: manage_position_def update_drawdown_frame Let_def)
  from s1 t0 have t1: "drawdown_triggered s1" by (simp add: close_position_sel)
  from 1(2) handle_signals_halted [OF t1, of self row] have "s2 = s1" by simp
  with 1(3) s1 show ?thesis
    by (simp add: update_equity_curve_frame close_position_sel update_drawdown_frame closed_trade_def)
qed

lemma drawdown_state_eval:
  "drawdown_state =
     \<lparr>balance = 10000, equity = 6900, position = Some scenario_position,
      trailing_stop = Some (Fin 1990), max_equity = 10000, drawdown_triggered = False,
      trades = [entry_log (frame_row 0 2000 0 1 5) Long 2000 10 (Fin 1990) (Fin 2020)
                  (Some (Fin 1990))],
      equity_curve =
        [\<lparr>ep_time = 0, ep_balance = 10000, ep_equity = 9900, ep_position = True\<rparr>,
         \<lparr>ep_time = 1, ep_balance = 10000, ep_equity = 6900, ep_position = True\<rparr>]\<rparr>"
  by (simp add: drawdown_state_def drawdown_rows_def scenario_position_def run_defs)

text \<open>
  C4. Sticky drawdown halt. Let the flag be set at the head of a bar, or the running
  drawdown (peak equity minus equity, over the peak) exceed \<^verbatim>\<open>self.max_drawdown\<close> there.
  Then the flag is set after this bar and after every later bar of the run, the run
  appends no entry log from this bar on (no position is opened), the position held at the
  end is the one held now or none, and a position open now whose close condition holds on
  this bar is closed on it, with its reason and PnL, as without the flag.
\<close>

theorem sticky_drawdown_halt:
  assumes trig: "drawdown_triggered s \<or> current_drawdown s > self_max_drawdown self"
      and step: "bar_step self row s = Inr s1"
      and rest: "simulate_from self rows s1 = Inr s2"
  shows "drawdown_triggered s1 \<and> drawdown_triggered s2
       \<and> entry_logs (trades s2) = entry_logs (trades s)
       \<and> (position s2 = None \<or> position s2 = position s)
       \<and> (\<forall>p r. position s = Some p
             \<and> close_reason p (update_trailing_stop (direction p) (b_close row) (b_atr row)
                  (trailing_stop s)) row = Inr (Some r)
            \<longrightarrow> position s1 = None
              \<and> (\<exists>t. trades s1 = trades s @ [t] \<and> t_exit_reason t = Some r
                     \<and> t_pnl t = Some (calculate_pnl self p (b_close row))))"
proof -
  from bar_step_halted [OF trig step] have
    a: "drawdown_triggered s1" "entry_logs (trades s1) = entry_logs (trades s)"
       "position s1 = None \<or> position s1 = position s"
    by simp_all
  from simulate_from_halted [OF a(1) rest] have
    b: "drawdown_triggered s2" "entry_logs (trades s2) = entry_logs (trades s1)"
       "position s2 = None \<or> position s2 = position s1"
    by simp_all
  have c: "\<forall>p r. position s = Some p
             \<and> close_reason p (update_trailing_stop (direction p) (b_close row) (b_atr row)
                  (trailing_stop s)) row = Inr (Some r)
            \<longrightarrow> position s1 = None
              \<and> (\<exists>t. trades s1 = trades s @ [t] \<and> t_exit_reason t = Some r
                     \<and> t_pnl t = Some (calculate_pnl self p (b_close row)))"
    using bar_step_closes [OF trig step] by blast
  from a b c show ?thesis by auto
qed

theorem sticky_drawdown_halt_witness:
  "\<not> drawdown_triggered drawdown_state
   \<and> current_drawdown drawdown_state > self_max_drawdown scenario_backtester
   \<and> position drawdown_state = Some scenario_position
   \<and> (\<exists>s1 s2.
        bar_step scenario_backtester (frame_row 2 1989 0 1 5) drawdown_state = Inr s1
      \<and> simulate_from scenario_backtester [frame_row 3 2000 0 1 5] s1 = Inr s2
      \<and> drawdown_triggered s1 \<and> drawdown_triggered s2
      \<and> entry_logs (trades s2) = entry_logs (trades drawdown_state)
      \<and> position s1 = None \<and> position s2 = None
      \<and> (\<exists>t. trades s1 = trades drawdown_state @ [t]
             \<and> t_exit_reason t = Some ''trailing_stop''))"
proof -
  have nt: "\<not> drawdown_triggered drawdown_state"
    by (simp add: drawdown_state_eval)
  have dd: "current_drawdown drawdown_state > self_max_drawdown scenario_backtester"
    by (simp add: drawdown_state_eval current_drawdown_def scenario_backtester_def)
  have pos: "position drawdown_state = Some scenario_position"
    by (simp add: drawdown_state_eval)
  have hit: "close_reason scenario_position
               (update_trailing_stop (direction scenario_position)
                  (b_close (frame_row 2 1989 0 1 5)) (b_atr (frame_row 2 1989 0 1 5))
                  (trailing_stop drawdown_state))
               (frame_row 2 1989 0 1 5) = Inr (Some ''trailing_stop'')"
    by (simp add: drawdown_state_eval scenario_position_def run_defs)
  have "\<exists>s1. bar_step scenario_backtester (frame_row 2 1989 0 1 5) drawdown_state = Inr s1
          \<and> (\<exists>s2. simulate_from scenario_backtester [frame_row 3 2000 0 1 5] s1 = Inr s2)"
    by (simp add: drawdown_state_eval scenario_position_def run_defs)
  then obtain s1 s2 where
    step: "bar_step scenario_backtester (frame_row 2 1989 0 1 5) drawdown_state = Inr s1"
    and rest: "simulate_from scenario_backtester [frame_row 3 2000 0 1 5] s1 = Inr s2"
    by blast
  from dd have trig: "drawdown_triggered drawdown_state
      \<or> current_drawdown drawdown_state > self_max_drawdown scenario_backtester"
    by simp
  note h = sticky_drawdown_halt [OF trig step rest]
  from h have a: "drawdown_triggered s1" "drawdown_triggered s2"
    "entry_logs (trades s2) = entry_logs (trades drawdown_state)"
    by simp_all
  from h pos hit have b: "position s1 = None
      \<and> (\<exists>t. trades s1 = trades drawdown_state @ [t]
             \<and> t_exit_reason t = Some ''trailing_stop'')"
    by blast
  from simulate_from_halted [OF a(1) rest] b have c: "position s2 = None" by auto
  from nt dd pos step rest a b c show ?thesis by blast
qed

subsection \<open>The trailing stop only tightens\<close>

lemma update_trailing_stop_tighter:
  "tighter_or_equal d ts (update_trailing_stop d current_price atr ts)"
  by (cases d)
     (auto simp add: tighter_or_equal_def update_trailing_stop_def split: option.splits)

lemma tighter_or_equal_numbers:
  assumes "tighter_or_equal d (Some (Fin a)) (Some (Fin b))"
  shows "(case d of Long \<Rightarrow> a \<le> b | Short \<Rightarrow> b \<le> a)"
  using assms by (cases d) (auto simp add: tighter_or_equal_def)

lemma handle_signals_open:
  assumes "position s = Some p"
  shows "handle_signals self row s = Inr s"
  using assms by (simp add: handle_signals_def)

lemma handle_signals_trades:
  assumes "handle_signals self row s = Inr s'"
  shows "\<exists>new. trades s' = trades s @ new"
  using handle_signals_balance [OF assms] by blast

lemma trace_from_hd: "trace_from self rows s ! 0 = s"
  by (cases rows) simp_all




lemma trace_from_step:
  assumes "Suc k < length (trace_from self rows s0)"
  shows "\<exists>row. bar_step self row (trace_from self rows s0 ! k) = Inr (trace_from self rows s0 ! Suc k)"
  using assms
proof (induction rows arbitrary: s0 k)
  case Nil
  then show ?case by simp
next
  case (Cons row rows)
  show ?case
  proof (cases "bar_step self row s0")
    case (Inl e)
    with Cons.prems show ?thesis by simp
  next
    case (Inr s1)
    then have tr: "trace_from self (row # rows) s0 = s0 # trace_from self rows s1" by simp
    show ?thesis
    proof (cases k)
      case 0
      have "bar_step self row (trace_from self (row # rows) s0 ! 0)
              = Inr (trace_from self (row # rows) s0 ! Suc 0)"
        unfolding tr using Inr by (simp add: trace_from_hd)
      with 0 show ?thesis by blast
    next
      case (Suc j)
      with Cons.prems tr have "Suc j < length (trace_from self rows s1)" by simp
      from Cons.IH [OF this] obtain r where
        "bar_step self r (trace_from self rows s1 ! j) = Inr (trace_from self rows s1 ! Suc j)"
        by blast
      then have "bar_step self r (trace_from self (row # rows) s0 ! k)
              = Inr (trace_from self (row # rows) s0 ! Suc k)"
        unfolding tr using Suc by simp
      then show ?thesis by blast
    qed
  qed
qed




lemma bar_step_keep:
  assumes pos: "position s = Some p"
      and nohit: "close_reason p (update_trailing_stop (direction p) (b_close row) (b_atr row)
                  (trailing_stop s)) row = Inr None"
  shows "bar_step self row s = Inr (update_equity_curve self row
           ((update_drawdown self s)\<lparr>trailing_stop :=
               update_trailing_stop (direction p) (b_close row) (b_atr row) (trailing_stop s)\<rparr>))"
  using pos nohit
  by (simp add: bar_step_def manage_position_def handle_signals_def update_drawdown_frame Let_def)

lemma bar_step_close:
  assumes pos: "position s = Some p"
      and hit: "close_reason p (update_trailing_stop (direction p) (b_close row) (b_atr row)
                  (trailing_stop s)) row = Inr (Some r)"
      and step: "bar_step self row s = Inr s'"
  shows "\<exists>new. trades s' = trades s @
           closed_trade p row
             (update_trailing_stop (direction p) (b_close row) (b_atr row) (trailing_stop s))
             (calculate_pnl self p (b_close row))
             (balance s + calculate_pnl self p (b_close row)) r # new"
proof -
  define s1 where "s1 = close_position self row p r
           ((update_drawdown self s)\<lparr>trailing_stop :=
               update_trailing_stop (direction p) (b_close row) (b_atr row) (trailing_stop s)\<rparr>)"
  have m: "manage_position self row (update_drawdown self s) = Inr s1"
    using pos hit by (simp add: manage_position_def update_drawdown_frame Let_def s1_def)
  have t1: "trades s1 = trades s @
           [closed_trade p row
             (update_trailing_stop (direction p) (b_close row) (b_atr row) (trailing_stop s))
             (calculate_pnl self p (b_close row))
             (balance s + calculate_pnl self p (b_close row)) r]"
    by (simp add: s1_def close_position_sel update_drawdown_frame)
  from step m obtain s2 where h: "handle_signals self row s1 = Inr s2"
    and s': "s' = update_equity_curve self row s2"
    by (auto simp add: bar_step_def split: sum.splits)
  from handle_signals_trades [OF h] obtain new where "trades s2 = trades s1 @ new" by blast
  with s' t1 have "trades s' = trades s @
           closed_trade p row
             (update_trailing_stop (direction p) (b_close row) (b_atr row) (trailing_stop s))
             (calculate_pnl self p (b_close row))
             (balance s + calculate_pnl self p (b_close row)) r # new"
    by (simp add: update_equity_curve_frame)
  then show ?thesis by blast
qed

lemma bar_step_time:
  assumes "bar_step self row s = Inr s'"
  shows "ep_time (last (equity_curve s')) = b_time row"
  using assms
  by (cases rule: bar_step_cases) (simp add: update_equity_curve_def Let_def)




lemma bar_step_raises:
  assumes pos: "position s = Some p"
      and err: "close_reason p (update_trailing_stop (direction p) (b_close row) (b_atr row)
                  (trailing_stop s)) row = Inl e"
  shows "bar_step self row s = Inl e"
  using pos err
  by (simp add: bar_step_def manage_position_def update_drawdown_frame Let_def)

lemma bar_step_trailing:
  assumes step: "bar_step self row s = Inr s'" and pos: "position s = Some p"
  shows "kept_or_closed p s s'"
proof (cases "close_reason p (update_trailing_stop (direction p) (b_close row) (b_atr row)
                  (trailing_stop s)) row")
  case (Inl e)
  from bar_step_raises [OF pos Inl, of self] step show ?thesis by simp
next
  case (Inr c)
  show ?thesis
  proof (cases c)
    case None
    with Inr have "close_reason p (update_trailing_stop (direction p) (b_close row) (b_atr row)
                  (trailing_stop s)) row = Inr None" by simp
    from bar_step_keep [OF pos this, of self] step have
      "s' = update_equity_curve self row
           ((update_drawdown self s)\<lparr>trailing_stop :=
               update_trailing_stop (direction p) (b_close row) (b_atr row) (trailing_stop s)\<rparr>)"
      by simp
    then have "trades s' = trades s" "position s' = Some p"
      "trailing_stop s' = update_trailing_stop (direction p) (b_close row) (b_atr row) (trailing_stop s)"
      using pos by (simp_all add: update_equity_curve_frame update_drawdown_frame)
    then show ?thesis
      by (simp add: kept_or_closed_def update_trailing_stop_tighter)
  next
    case (Some r)
    with Inr have "close_reason p (update_trailing_stop (direction p) (b_close row) (b_atr row)
                  (trailing_stop s)) row = Inr (Some r)" by simp
    from bar_step_close [OF pos this step] obtain new where
      t: "trades s' = trades s @
           closed_trade p row
             (update_trailing_stop (direction p) (b_close row) (b_atr row) (trailing_stop s))
             (calculate_pnl self p (b_close row))
             (balance s + calculate_pnl self p (b_close row)) r # new"
      by blast
    have n: "trades s' ! length (trades s) = closed_trade p row
             (update_trailing_stop (direction p) (b_close row) (b_atr row) (trailing_stop s))
             (calculate_pnl self p (b_close row))
             (balance s + calculate_pnl self p (b_close row)) r"
      by (simp add: t)
    have l: "length (trades s) < length (trades s')" by (simp add: t)
    have x: "t_exit_time (trades s' ! length (trades s)) = Some (b_time row)"
      "t_trailing_stop (trades s' ! length (trades s))
         = update_trailing_stop (direction p) (b_close row) (b_atr row) (trailing_stop s)"
      by (simp_all add: n closed_trade_def)
    from l x bar_step_time [OF step] show ?thesis
      by (simp add: kept_or_closed_def update_trailing_stop_tighter)
  qed
qed

lemma scenario_trace:
  "\<exists>a b c d e. trace_from scenario_backtester scenario_rows (initial_state [] []) = [a, b, c, d, e]
     \<and> position b = Some scenario_position
     \<and> trailing_stop b = Some (Fin 1990) \<and> trailing_stop c = Some (Fin 2000)
     \<and> length (trades c) = length (trades b)"
  by (simp add: scenario_position_def run_defs)

text \<open>
  C2. Trailing monotonicity. In every run, for every bar at whose head a position is open:
  if the position is still open after the bar, its trailing stop is the same as before or
  tighter (strictly higher for a long position, strictly lower for a short one, or the
  first value after \<^verbatim>\<open>None\<close>); if the bar closes it, the same holds of the trailing stop
  recorded in its closed trade. A candidate that would loosen the stop is never accepted.
\<close>

theorem trailing_stop_monotone:
  assumes "Suc k < length (trace_from self rows s0)"
      and "position (trace_from self rows s0 ! k) = Some p"
  shows "kept_or_closed p (trace_from self rows s0 ! k) (trace_from self rows s0 ! Suc k)"
proof -
  from trace_from_step [OF assms(1)] obtain row where
    "bar_step self row (trace_from self rows s0 ! k) = Inr (trace_from self rows s0 ! Suc k)"
    by blast
  from bar_step_trailing [OF this assms(2)] show ?thesis .
qed

theorem trailing_stop_monotone_witness:
  "Suc 1 < length (trace_from scenario_backtester scenario_rows (initial_state [] []))
   \<and> position (trace_from scenario_backtester scenario_rows (initial_state [] []) ! 1)
       = Some scenario_position
   \<and> kept_or_closed scenario_position
       (trace_from scenario_backtester scenario_rows (initial_state [] []) ! 1)
       (trace_from scenario_backtester scenario_rows (initial_state [] []) ! Suc 1)
   \<and> trailing_stop (trace_from scenario_backtester scenario_rows (initial_state [] []) ! 1)
       = Some (Fin 1990)
   \<and> trailing_stop (trace_from scenario_backtester scenario_rows (initial_state [] []) ! Suc 1)
       = Some (Fin 2000)"
proof -
  from scenario_trace obtain a b c d e where
    tr: "trace_from scenario_backtester scenario_rows (initial_state [] []) = [a, b, c, d, e]"
    and pb: "position b = Some scenario_position"
    and tb: "trailing_stop b = Some (Fin 1990)" and tc: "trailing_stop c = Some (Fin 2000)"
    by blast
  have l: "Suc 1 < length (trace_from scenario_backtester scenario_rows (initial_state [] []))"
    by (simp add: tr)
  have p: "position (trace_from scenario_backtester scenario_rows (initial_state [] []) ! 1)
       = Some scenario_position"
    by (simp add: tr pb)
  from trailing_stop_monotone [OF l p] l p tb tc show ?thesis
    by (simp add: tr)
qed

subsection \<open>The chain of close conditions\<close>

lemma close_reason_trailing_first:
  assumes "trailing_hit (direction p) (b_close row) ts"
  shows "close_reason p ts row = Inr (Some ''trailing_stop'')"
  using assms by (simp add: close_reason_def)

lemma close_reason_stop_loss_second:
  assumes "\<not> trailing_hit (direction p) (b_close row) ts" "stop_loss_hit p (b_close row)"
  shows "close_reason p ts row = Inr (Some ''stop_loss'')"
  using assms by (simp add: close_reason_def)

lemma close_reason_take_profit_third:
  assumes "\<not> trailing_hit (direction p) (b_close row) ts" "\<not> stop_loss_hit p (b_close row)"
    "take_profit_hit p (b_close row)"
  shows "close_reason p ts row = Inr (Some ''take_profit'')"
  using assms by (simp add: close_reason_def)

lemma close_reason_no_signal_column:
  assumes "\<not> trailing_hit (direction p) (b_close row) ts" "\<not> stop_loss_hit p (b_close row)"
    "\<not> take_profit_hit p (b_close row)" "b_signal row = None"
  shows "close_reason p ts row = Inl (KeyError ''signal'')"
  using assms by (simp add: close_reason_def)

text \<open>
  C1. The priority chain breaks at its last link on the frames the repository builds.
  A long position is opened at 2000; on the next bar the price 2005 hits neither the
  trailing stop, nor the stop loss, nor the take profit, and the strategy's column
  \<^verbatim>\<open>Signal\<close> is -1 (the opposite signal). The loop reads \<^verbatim>\<open>row['signal']\<close>, a column
  the frame does not have, and the run ends in \<^verbatim>\<open>KeyError: 'signal'\<close>; no trade with
  exit reason \<^verbatim>\<open>opposite_signal\<close> is recorded.
\<close>

theorem opposite_signal_raises_KeyError:
  "simulate_trading scenario_backtester
     [strategy_row 0 2000 1 5, strategy_row 1 2005 (- 1) 5] [] []
   = Inl (KeyError ''signal'')"
  by (simp add: strategy_row_def run_defs)

subsection \<open>Position sizing at entry\<close>

lemma open_position_lots:
  assumes "dynamic_lot_size self (balance s) (stop_dist_of self row d) = Inr lots"
  shows "\<exists>s' p. open_position self row d s = Inr s' \<and> position s' = Some p
           \<and> lot_size p = lots
           \<and> fl_abs (fl_sub (Fin (entry_price p)) (stop_loss p)) = stop_dist_of self row d"
  using assms
  by (simp add: open_position_def stop_dist_of_def Let_def)

lemma open_position_stop_dist:
  assumes "open_position self row d s = Inr s'"
  shows "\<exists>p. position s' = Some p
           \<and> fl_abs (fl_sub (Fin (entry_price p)) (stop_loss p)) = stop_dist_of self row d"
  using assms
  by (cases rule: open_position_cases) (simp add: stop_dist_of_def)

text \<open>
  C6. Position sizing at entry. With \<open>stop_dist = |entry - sl|\<close> as the entry code computes
  it from the row: when the stop distance is a number above zero (and the pip value is
  not zero) the position is opened with the lot size
  \<open>risk_per_trade * balance / (stop_dist * pip_value)\<close>; when the stop distance is zero
  the position is opened with the configured \<^verbatim>\<open>self.lot_size\<close>, and nothing is divided.
  In both cases the entry returns. In the scenario with balance 10000, risk
  fraction 0.01, stop distance 10 and pip value 1, the lot size is 10.
\<close>

theorem position_sizing_at_entry:
  "(\<forall>x. stop_dist_of self row d = Fin x \<and> 0 < x \<and> self_pip_value self \<noteq> 0
        \<longrightarrow> (\<exists>s' p. open_position self row d s = Inr s' \<and> position s' = Some p
               \<and> fl_abs (fl_sub (Fin (entry_price p)) (stop_loss p)) = Fin x
               \<and> lot_size p = self_risk_per_trade self * balance s / (x * self_pip_value self)))
   \<and> (stop_dist_of self row d = Fin 0
        \<longrightarrow> (\<exists>s' p. open_position self row d s = Inr s' \<and> position s' = Some p
               \<and> fl_abs (fl_sub (Fin (entry_price p)) (stop_loss p)) = Fin 0
               \<and> lot_size p = self_lot_size self))"
proof (intro conjI allI impI)
  fix x
  assume h: "stop_dist_of self row d = Fin x \<and> 0 < x \<and> self_pip_value self \<noteq> 0"
  then have "dynamic_lot_size self (balance s) (stop_dist_of self row d)
      = Inr (self_risk_per_trade self * balance s / (x * self_pip_value self))"
    by (simp add: dynamic_lot_size_def)
  from open_position_lots [OF this] h
  show "\<exists>s' p. open_position self row d s = Inr s' \<and> position s' = Some p
               \<and> fl_abs (fl_sub (Fin (entry_price p)) (stop_loss p)) = Fin x
               \<and> lot_size p = self_risk_per_trade self * balance s / (x * self_pip_value self)"
    by auto
next
  assume h: "stop_dist_of self row d = Fin 0"
  then have "dynamic_lot_size self (balance s) (stop_dist_of self row d)
      = Inr (self_lot_size self)"
    by (simp add: dynamic_lot_size_def)
  from open_position_lots [OF this] h
  show "\<exists>s' p. open_position self row d s = Inr s' \<and> position s' = Some p
               \<and> fl_abs (fl_sub (Fin (entry_price p)) (stop_loss p)) = Fin 0
               \<and> lot_size p = self_lot_size self"
    by auto
qed

theorem position_sizing_at_entry_witness:
  "stop_dist_of scenario_backtester (frame_row 0 2000 0 1 5) Long = Fin 10
   \<and> self_risk_per_trade scenario_backtester = 1 / 100
   \<and> self_pip_value scenario_backtester = 1
   \<and> balance (initial_state [] []) = 10000
   \<and> (\<exists>s' p. open_position scenario_backtester (frame_row 0 2000 0 1 5) Long
                (initial_state [] []) = Inr s'
          \<and> position s' = Some p \<and> lot_size p = 10)"
proof -
  have sd: "stop_dist_of scenario_backtester (frame_row 0 2000 0 1 5) Long = Fin 10"
    by (simp add: stop_dist_of_def run_defs)
  have cfg: "self_risk_per_trade scenario_backtester = 1 / 100"
    "self_pip_value scenario_backtester = 1" "balance (initial_state [] []) = 10000"
    by (simp_all add: scenario_backtester_def initial_state_def)
  from position_sizing_at_entry
         [of scenario_backtester "frame_row 0 2000 0 1 5" Long "initial_state [] []"]
       sd cfg
  have "\<exists>s' p. open_position scenario_backtester (frame_row 0 2000 0 1 5) Long
                (initial_state [] []) = Inr s'
          \<and> position s' = Some p \<and> lot_size p = 1 / 100 * 10000 / (10 * 1)"
    by auto
  then have "\<exists>s' p. open_position scenario_backtester (frame_row 0 2000 0 1 5) Long
                (initial_state [] []) = Inr s'
          \<and> position s' = Some p \<and> lot_size p = 10"
    by simp
  with sd cfg show ?thesis by blast
qed

subsection \<open>Realized PnL\<close>

text \<open>
  C7. For a position closed at a price, the PnL is
  (exit - entry) * lot_size * 100000 for a long position and
  (entry - exit) * lot_size * 100000 for a short one, minus
  commission * lot_size * 100000 in both cases; closing records this value as the
  \<^verbatim>\<open>pnl\<close> of the trade, at the bar's closing price, and adds it to the balance.
\<close>

theorem calculate_pnl_formula:
  "calculate_pnl self p exit_price =
     (if direction p = Long
      then (exit_price - entry_price p) * lot_size p * 100000
      else (entry_price p - exit_price) * lot_size p * 100000)
     - self_commission self * lot_size p * 100000
   \<and> (\<exists>t. trades (close_position self row p reason s) = trades s @ [t]
          \<and> t_exit_price t = Some (b_close row)
          \<and> t_pnl t = Some (calculate_pnl self p (b_close row)))
   \<and> balance (close_position self row p reason s)
       = balance s + calculate_pnl self p (b_close row)"
  by (cases "direction p")
     (simp_all add: calculate_pnl_def close_position_def closed_trade_def Let_def)

subsection \<open>Performance evaluation\<close>

text \<open>
  C8. For an empty trade list \<^verbatim>\<open>_calculate_performance\<close> returns, without raising, a
  dictionary whose seven values are zero and which has no \<^verbatim>\<open>final_balance\<close> key: the
  summary is not fully populated.
\<close>

theorem empty_summary_has_no_final_balance:
  "\<exists>m. calculate_performance sharpe [] curve = Inr m
     \<and> map_of m ''total_return'' = Some (Num 0)
     \<and> map_of m ''num_trades'' = Some (Num 0)
     \<and> map_of m ''win_rate'' = Some (Num 0)
     \<and> map_of m ''avg_win'' = Some (Num 0)
     \<and> map_of m ''avg_loss'' = Some (Num 0)
     \<and> map_of m ''max_drawdown'' = Some (Num 0)
     \<and> map_of m ''sharpe_ratio'' = Some (Num 0)
     \<and> map_of m ''final_balance'' = None"
  by (simp add: calculate_performance_def)

lemma starts_append:
  assumes "starts_with_entry_log s" "trades s \<noteq> []" "trades s' = trades s @ new"
  shows "starts_with_entry_log s'"
  using assms by (cases "trades s") (simp_all add: starts_with_entry_log_def)

lemma starts_same:
  assumes "starts_with_entry_log s" "trades s' = trades s" "position s' = position s"
  shows "starts_with_entry_log s'"
  using assms by (cases "trades s") (simp_all add: starts_with_entry_log_def)

lemma starts_open:
  assumes "starts_with_entry_log s" "position s = Some p"
  shows "trades s \<noteq> []"
  using assms by (auto simp add: starts_with_entry_log_def)

lemma manage_position_starts:
  assumes "manage_position self row s = Inr s'" and inv: "starts_with_entry_log s"
  shows "starts_with_entry_log s'"
  using assms(1)
proof (cases rule: manage_position_cases)
  case flat
  with inv show ?thesis by simp
next
  case (keep p ts)
  then have "trades s' = trades s" "position s' = position s" by simp_all
  with inv show ?thesis by (rule starts_same)
next
  case (close p ts r)
  from starts_open [OF inv close(1)] have ne: "trades s \<noteq> []" .
  from close have "trades s' = trades s @
      [closed_trade p row ts (calculate_pnl self p (b_close row))
         (balance s + calculate_pnl self p (b_close row)) r]"
    by (simp add: close_position_sel)
  with inv ne show ?thesis by (rule starts_append)
qed

lemma handle_signals_starts:
  assumes "handle_signals self row s = Inr s'" and inv: "starts_with_entry_log s"
  shows "starts_with_entry_log s'"
  using assms(1)
proof (cases rule: handle_signals_cases)
  case idle
  with inv show ?thesis by simp
next
  case (opened d)
  from opened(3) show ?thesis
  proof (cases rule: open_position_cases)
    case (1 lots)
    then have t: "trades s' = trades s @
               [entry_log row d (entry_price_of self d (b_close row)) lots
                  (entry_stop_loss d (entry_price_of self d (b_close row)) (b_atr row))
                  (entry_take_profit d (entry_price_of self d (b_close row)) (b_atr row))
                  (new_trailing d (entry_price_of self d (b_close row)) (b_atr row))]"
      by simp
    show ?thesis
    proof (cases "trades s")
      case Nil
      with t show ?thesis by (simp add: starts_with_entry_log_def entry_log_def)
    next
      case (Cons a list)
      then have "trades s \<noteq> []" by simp
      with inv show ?thesis using t by (rule starts_append)
    qed
  qed
qed

lemma bar_step_starts:
  assumes "bar_step self row s = Inr s'" and inv: "starts_with_entry_log s"
  shows "starts_with_entry_log s'"
  using assms(1)
proof (cases rule: bar_step_cases)
  case (1 s1 s2)
  have "starts_with_entry_log (update_drawdown self s)"
    using inv by (rule starts_same) (simp_all add: update_drawdown_frame)
  from manage_position_starts [OF 1(1) this] have "starts_with_entry_log s1" .
  from handle_signals_starts [OF 1(2) this] have "starts_with_entry_log s2" .
  then show ?thesis
    by (rule starts_same) (simp_all add: 1(3) update_equity_curve_frame)
qed

lemma simulate_from_starts:
  assumes "simulate_from self rows s = Inr s'" "starts_with_entry_log s"
  shows "starts_with_entry_log s'"
  using assms
proof (induction rows arbitrary: s)
  case Nil
  then show ?case by simp
next
  case (Cons row rows)
  from Cons.prems(1) obtain s1 where
    step: "bar_step self row s = Inr s1" and rest: "simulate_from self rows s1 = Inr s'"
    by (auto split: sum.splits)
  from bar_step_starts [OF step Cons.prems(2)] have "starts_with_entry_log s1" .
  from Cons.IH [OF rest this] show ?case .
qed

lemma calculate_performance_entry_log_first:
  assumes "t_pnl t = None"
  shows "calculate_performance sharpe (t # ts) curve = Inl (KeyError ''pnl'')"
  using assms by (simp add: calculate_performance_def)

text \<open>
  C9. For every non-empty trade list produced by a run of a new \<^verbatim>\<open>Backtester\<close>, the
  performance evaluation raises \<^verbatim>\<open>KeyError: 'pnl'\<close> instead of reporting a win rate:
  the first dictionary of the list is the entry log of the first position, which has no
  \<^verbatim>\<open>pnl\<close> key.
\<close>

theorem performance_of_run_raises_KeyError:
  assumes "simulate_trading self rows [] [] = Inr s" and "trades s \<noteq> []"
  shows "calculate_performance sharpe (trades s) (equity_curve s) = Inl (KeyError ''pnl'')"
proof -
  have "starts_with_entry_log (initial_state [] [])"
    by (simp add: starts_with_entry_log_def initial_state_def)
  with assms(1) have "starts_with_entry_log s"
    unfolding simulate_trading_def by (rule simulate_from_starts)
  with assms(2) obtain t ts where "trades s = t # ts" "t_pnl t = None"
    by (cases "trades s") (simp_all add: starts_with_entry_log_def)
  then show ?thesis
    by (simp add: calculate_performance_entry_log_first)
qed

theorem performance_of_run_raises_KeyError_witness:
  "\<exists>s. simulate_trading scenario_backtester scenario_rows [] [] = Inr s
     \<and> length (trades s) = 2
     \<and> calculate_performance (\<lambda>values. 0) (trades s) (equity_curve s) = Inl (KeyError ''pnl'')"
proof -
  obtain s where run: "simulate_trading scenario_backtester scenario_rows [] [] = Inr s"
    and l: "length (trades s) = 2"
    using scenario_run by blast
  from l have "trades s \<noteq> []" by auto
  from performance_of_run_raises_KeyError [OF run this, of "\<lambda>values. 0"] run l
  show ?thesis by blast
qed

subsection \<open>RiskManager: fixed lot size and circuit breaker\<close>

text \<open>
  C10. \<^verbatim>\<open>RiskManager.calculate_position_size\<close> returns 0.01 for every object and all
  arguments, so any two calls return the same lot size.
\<close>

theorem calculate_position_size_constant:
  "calculate_position_size rm entry sl info atr risk = 1 / 100
   \<and> calculate_position_size rm entry sl info atr risk
       = calculate_position_size rm' entry' sl' info' atr' risk'"
  by (simp add: calculate_position_size_def)

lemmas rm_defs =
  can_open_position_def check_circuit_breaker_def check_drawdown_limits_def
  calculate_portfolio_risk_def record_trade_result_def default_risk_manager_def
  new_risk_manager_def five_losses_def Let_def

lemma can_open_position_tripped:
  assumes "consecutive_losses rm \<ge> circuit_breaker_losses rm"
  shows "can_open_position rm symb = Inr (False, rm\<lparr>circuit_breaker_triggered := True\<rparr>)"
  using assms by (simp add: can_open_position_def check_circuit_breaker_def)

text \<open>
  What does hold: after a streak of losses as long as the threshold, with no win in
  between, \<^verbatim>\<open>can_open_position\<close> returns False for every symbol.
\<close>

lemma record_results_frame:
  "circuit_breaker_losses (record_results rm rs) = circuit_breaker_losses rm"
  by (induction rm rs rule: record_results.induct) (simp_all add: record_trade_result_def)

lemma record_results_losses:
  assumes "\<forall>r \<in> set rs. snd (snd r) = ''loss''"
  shows "consecutive_losses (record_results rm rs) = consecutive_losses rm + int (length rs)"
  using assms
  by (induction rm rs rule: record_results.induct) (simp_all add: record_trade_result_def)

lemma circuit_breaker_trips:
  assumes "\<forall>r \<in> set rs. snd (snd r) = ''loss''"
      and "circuit_breaker_losses rm \<le> int (length rs)"
      and "0 \<le> consecutive_losses rm"
  shows "\<exists>rm'. can_open_position (record_results rm rs) symb = Inr (False, rm')"
proof -
  have "circuit_breaker_losses (record_results rm rs) \<le> consecutive_losses (record_results rm rs)"
    using assms by (simp add: record_results_frame record_results_losses)
  from can_open_position_tripped [OF this] show ?thesis by blast
qed

text \<open>
  C5. Circuit breaker persistence fails on the code. A default \<^verbatim>\<open>RiskManager\<close>
  (threshold 5) records five losses; \<^verbatim>\<open>can_open_position\<close> returns False and sets
  \<^verbatim>\<open>circuit_breaker_triggered\<close>. One winning trade is recorded, with no
  \<^verbatim>\<open>reset_session\<close>; \<^verbatim>\<open>can_open_position\<close> now returns True although the flag is
  still set: \<^verbatim>\<open>check_circuit_breaker\<close> reads the loss streak only, never the flag.
\<close>

theorem circuit_breaker_clears_on_win:
  "\<exists>rm1 rm2.
     can_open_position (record_results default_risk_manager five_losses) ''XAUUSD''
       = Inr (False, rm1)
   \<and> circuit_breaker_triggered rm1
   \<and> can_open_position (record_trade_result rm1 ''XAUUSD'' 10 ''win'') ''XAUUSD''
       = Inr (True, rm2)
   \<and> circuit_breaker_triggered rm2"
  by (simp add: rm_defs)

end
